theory Spec2Isabelle
  imports Main "HOL-Library.Word"
begin

text \<open>
  The React component \<open>ResumeGenerator\<close> of \<open>frontend/src/ResumeGenerator.jsx\<close>:
  its four state cells, the handler \<open>generate\<close> as the list of effects it performs for
  each answer of the environment, what is rendered from the state, and the mounted
  component as a machine that handles one event after another.
\<close>

section \<open>JavaScript values used by the component\<close>

text \<open>
  A JavaScript string is a sequence of 16-bit code units. String literals of the source
  are ASCII and are written with \<open>lit\<close>. A blob is a sequence of bytes.
\<close>

type_synonym code_unit = "16 word"
type_synonym js_string = "code_unit list"
type_synonym blob = "8 word list"

definition lit :: "string \<Rightarrow> js_string" where
  "lit s = map of_char s"

text \<open>
  \<open>String.prototype.trim\<close> strips the code points of the ECMAScript productions
  WhiteSpace and LineTerminator from both ends. All of them lie in the basic plane.
\<close>

definition is_white_space :: "code_unit \<Rightarrow> bool" where
  "is_white_space c =
     (c = 0x0009 \<or> c = 0x000A \<or> c = 0x000B \<or> c = 0x000C \<or> c = 0x000D \<or> c = 0x0020
      \<or> c = 0x00A0 \<or> c = 0x1680 \<or> (0x2000 \<le> c \<and> c \<le> 0x200A) \<or> c = 0x2028
      \<or> c = 0x2029 \<or> c = 0x202F \<or> c = 0x205F \<or> c = 0x3000 \<or> c = 0xFEFF)"

definition trim :: "js_string \<Rightarrow> js_string" where
  "trim s = rev (dropWhile is_white_space (rev (dropWhile is_white_space s)))"

text \<open>Of the strings only the empty one is falsy; \<open>a || b\<close> is \<open>a\<close> when \<open>a\<close> is truthy.\<close>

definition truthy :: "js_string \<Rightarrow> bool" where
  "truthy s = (s \<noteq> [])"

definition js_or :: "js_string \<Rightarrow> js_string \<Rightarrow> js_string" where
  "js_or a b = (if truthy a then a else b)"

text \<open>
  \<open>import.meta.env.VITE_API_BASE_URL\<close> is a string when the variable is configured
  and \<open>undefined\<close> otherwise; a template literal converts it with ToString.
\<close>

datatype env_value = Undefined | Str js_string

fun to_string :: "env_value \<Rightarrow> js_string" where
  "to_string Undefined = lit ''undefined''"
| "to_string (Str s) = s"

text \<open>A thrown \<open>Error\<close> object, with its \<open>message\<close> property.\<close>

datatype js_error = Error (message: js_string)

subsection \<open>\<open>JSON.stringify\<close> on a flat object literal\<close>

datatype json_value = JString js_string | JBool bool

type_synonym json_object = "(js_string \<times> json_value) list"

text \<open>
  The escape \<open>\uXXXX\<close> of a code unit: its value as four lowercase hexadecimal digits.
\<close>

definition hex_digit :: "nat \<Rightarrow> code_unit" where
  "hex_digit n = of_nat (if n < 10 then 48 + n else 87 + n)"

definition unicode_escape :: "code_unit \<Rightarrow> js_string" where
  "unicode_escape c =
     [0x5C, 0x75, hex_digit (unat c div 4096), hex_digit (unat c div 256 mod 16),
      hex_digit (unat c div 16 mod 16), hex_digit (unat c mod 16)]"

definition is_high_surrogate :: "code_unit \<Rightarrow> bool" where
  "is_high_surrogate c = (0xD800 \<le> c \<and> c \<le> 0xDBFF)"

definition is_low_surrogate :: "code_unit \<Rightarrow> bool" where
  "is_low_surrogate c = (0xDC00 \<le> c \<and> c \<le> 0xDFFF)"

definition quote_unit :: "code_unit \<Rightarrow> js_string" where
  "quote_unit c =
     (if c = 0x08 then [0x5C, 0x62]
      else if c = 0x09 then [0x5C, 0x74]
      else if c = 0x0A then [0x5C, 0x6E]
      else if c = 0x0C then [0x5C, 0x66]
      else if c = 0x0D then [0x5C, 0x72]
      else if c = 0x22 then [0x5C, 0x22]
      else if c = 0x5C then [0x5C, 0x5C]
      else if c < 0x20 \<or> is_high_surrogate c \<or> is_low_surrogate c then unicode_escape c
      else [c])"

text \<open>
  QuoteJSONString walks the code points of the string: a high surrogate followed by a low
  one is one code point and is copied; a surrogate on its own is escaped.
\<close>

fun quote_units :: "js_string \<Rightarrow> js_string" where
  "quote_units [] = []"
| "quote_units [c] = quote_unit c"
| "quote_units (c # d # cs) =
     (if is_high_surrogate c \<and> is_low_surrogate d then c # d # quote_units cs
      else quote_unit c @ quote_units (d # cs))"

definition QuoteJSONString :: "js_string \<Rightarrow> js_string" where
  "QuoteJSONString s = [0x22] @ quote_units s @ [0x22]"

fun stringify_value :: "json_value \<Rightarrow> js_string" where
  "stringify_value (JString s) = QuoteJSONString s"
| "stringify_value (JBool b) = (if b then lit ''true'' else lit ''false'')"

fun stringify_members :: "json_object \<Rightarrow> js_string" where
  "stringify_members [] = []"
| "stringify_members [(k, v)] = QuoteJSONString k @ lit '':'' @ stringify_value v"
| "stringify_members ((k, v) # m # ms) =
     QuoteJSONString k @ lit '':'' @ stringify_value v @ lit '','' @ stringify_members (m # ms)"

definition JSON_stringify :: "json_object \<Rightarrow> js_string" where
  "JSON_stringify obj = lit ''{'' @ stringify_members obj @ lit ''}''"

section \<open>The component \<open>ResumeGenerator\<close>\<close>

subsection \<open>State and effects\<close>

text \<open>The four \<open>useState\<close> cells of the component, with their initial values.\<close>

record state =
  jdUrl :: js_string
  greyHat :: bool
  loading :: bool
  error :: js_string

definition initial_state :: state where
  "initial_state = \<lparr>jdUrl = [], greyHat = True, loading = False, error = []\<rparr>"

datatype http_method = GET | POST

record request =
  url :: js_string
  http_method :: http_method
  headers :: "(js_string \<times> js_string) list"
  body :: js_string

text \<open>The anchor element built for the download, with the two attributes the code sets.\<close>

record anchor =
  href :: js_string
  download :: js_string

text \<open>
  Everything a handler does to the world outside its own local variables, in the order
  it does it: calls of the four state setters, the call of \<open>fetch\<close>, and the calls on
  \<open>window.URL\<close> and the document.
\<close>

datatype effect =
    SetJdUrl js_string
  | SetGreyHat bool
  | SetLoading bool
  | SetError js_string
  | Fetch request
  | CreateObjectURL blob js_string
  | AppendChild anchor
  | Click anchor
  | Remove anchor
  | RevokeObjectURL js_string

fun apply_effect :: "state \<Rightarrow> effect \<Rightarrow> state" where
  "apply_effect s (SetJdUrl v) = s\<lparr>jdUrl := v\<rparr>"
| "apply_effect s (SetGreyHat b) = s\<lparr>greyHat := b\<rparr>"
| "apply_effect s (SetLoading b) = s\<lparr>loading := b\<rparr>"
| "apply_effect s (SetError e) = s\<lparr>error := e\<rparr>"
| "apply_effect s _ = s"

definition apply_effects :: "state \<Rightarrow> effect list \<Rightarrow> state" where
  "apply_effects s es = foldl apply_effect s es"

subsection \<open>What the environment answers\<close>

text \<open>
  \<open>fetch\<close> either rejects with an error or resolves with a response; \<open>res.ok\<close> is true
  exactly for the statuses 200 to 299; \<open>res.blob()\<close> either rejects (the body could not
  be read) or resolves with the bytes of the body. \<open>createObjectURL\<close> returns a URL
  chosen by the browser. The calls on \<open>window.URL\<close> and on the document are total for
  the arguments the code passes.
\<close>

datatype blob_outcome = BlobRejects js_error | BlobResolves blob

record response =
  status :: nat
  blob_result :: blob_outcome

definition ok :: "response \<Rightarrow> bool" where
  "ok res = (200 \<le> status res \<and> status res \<le> 299)"

datatype fetch_outcome = FetchRejects js_error | FetchResolves response

record browser =
  fetch_result :: fetch_outcome
  object_url :: js_string

subsection \<open>\<open>generate\<close>\<close>

definition request_body :: "state \<Rightarrow> json_object" where
  "request_body s = [(lit ''jd_url'', JString (jdUrl s)), (lit ''grey_hat'', JBool (greyHat s))]"

definition generate_request :: "env_value \<Rightarrow> state \<Rightarrow> request" where
  "generate_request API_BASE s =
     \<lparr>url = to_string API_BASE @ lit ''/generate-resume-from-url'',
      http_method = POST,
      headers = [(lit ''Content-Type'', lit ''application/json'')],
      body = JSON_stringify (request_body s)\<rparr>"

text \<open>
  The part of \<open>generate\<close> that runs inside the click, up to the first \<open>await\<close>:
  the effects, and whether a \<open>fetch\<close> is now awaited.
\<close>

definition generate_sync :: "env_value \<Rightarrow> state \<Rightarrow> effect list \<times> bool" where
  "generate_sync API_BASE s =
     (if \<not> truthy (trim (jdUrl s))
      then ([SetError (lit ''Please paste a Job Description URL'')], False)
      else ([SetLoading True, SetError [], Fetch (generate_request API_BASE s)], True))"

text \<open>
  The rest of the \<open>try\<close> block once \<open>fetch\<close> has settled: its effects, and the error
  it throws, if any.
\<close>

definition try_rest :: "browser \<Rightarrow> effect list \<times> js_error option" where
  "try_rest b =
     (case fetch_result b of
        FetchRejects err \<Rightarrow> ([], Some err)
      | FetchResolves res \<Rightarrow>
          if \<not> ok res then ([], Some (Error (lit ''Failed to generate resume'')))
          else (case blob_result res of
                  BlobRejects err \<Rightarrow> ([], Some err)
                | BlobResolves bl \<Rightarrow>
                    let u = object_url b;
                        a = \<lparr>href = u, download = lit ''ATS_Resume.pdf''\<rparr>
                    in ([CreateObjectURL bl u, AppendChild a, Click a, Remove a,
                         RevokeObjectURL u], None)))"

definition catch_clause :: "js_error \<Rightarrow> effect list" where
  "catch_clause err = [SetError (js_or (message err) (lit ''Something went wrong''))]"

definition finally_clause :: "effect list" where
  "finally_clause = [SetLoading False]"

definition generate_async :: "browser \<Rightarrow> effect list" where
  "generate_async b =
     (case try_rest b of
        (es, None) \<Rightarrow> es @ finally_clause
      | (es, Some err) \<Rightarrow> es @ catch_clause err @ finally_clause)"

text \<open>A complete run of \<open>generate\<close> from the state \<open>s\<close> of the render that created it.\<close>

definition generate :: "env_value \<Rightarrow> browser \<Rightarrow> state \<Rightarrow> effect list" where
  "generate API_BASE b s =
     (case generate_sync API_BASE s of
        (es, False) \<Rightarrow> es
      | (es, True) \<Rightarrow> es @ generate_async b)"

subsection \<open>Reading a trace\<close>

fun fetches :: "effect list \<Rightarrow> request list" where
  "fetches [] = []"
| "fetches (Fetch r # es) = r # fetches es"
| "fetches (_ # es) = fetches es"

text \<open>
  The downloads a trace causes. A click on an anchor saves a file when the anchor is in the
  document and its \<open>href\<close> is an object URL that is registered at that moment; the file
  has the name of the \<open>download\<close> attribute and the bytes of the registered blob.
\<close>

record dom =
  object_urls :: "(js_string \<times> blob) list"
  attached :: "anchor list"

definition empty_dom :: dom where
  "empty_dom = \<lparr>object_urls = [], attached = []\<rparr>"

fun downloads_from :: "dom \<Rightarrow> effect list \<Rightarrow> (js_string \<times> blob) list" where
  "downloads_from d [] = []"
| "downloads_from d (CreateObjectURL bl u # es) =
     downloads_from (d\<lparr>object_urls := (u, bl) # object_urls d\<rparr>) es"
| "downloads_from d (RevokeObjectURL u # es) =
     downloads_from (d\<lparr>object_urls := filter (\<lambda>(k, v). k \<noteq> u) (object_urls d)\<rparr>) es"
| "downloads_from d (AppendChild a # es) =
     downloads_from (d\<lparr>attached := a # attached d\<rparr>) es"
| "downloads_from d (Remove a # es) =
     downloads_from (d\<lparr>attached := removeAll a (attached d)\<rparr>) es"
| "downloads_from d (Click a # es) =
     (case (if a \<in> set (attached d) then map_of (object_urls d) (href a) else None) of
        Some bl \<Rightarrow> (download a, bl) # downloads_from d es
      | None \<Rightarrow> downloads_from d es)"
| "downloads_from d (_ # es) = downloads_from d es"

definition downloads :: "effect list \<Rightarrow> (js_string \<times> blob) list" where
  "downloads es = downloads_from empty_dom es"

fun clicks :: "effect list \<Rightarrow> anchor list" where
  "clicks [] = []"
| "clicks (Click a # es) = a # clicks es"
| "clicks (_ # es) = clicks es"

subsection \<open>What is rendered\<close>

text \<open>The parts of the returned JSX that depend on the state.\<close>

record view =
  input_value :: js_string
  checkbox_checked :: bool
  button_disabled :: bool
  button_label :: js_string
  loader_shown :: bool
  toast :: "js_string option"

definition render :: "state \<Rightarrow> view" where
  "render s =
     \<lparr>input_value = jdUrl s,
      checkbox_checked = greyHat s,
      button_disabled = loading s,
      button_label = (if loading s then lit ''Generating'' @ [0x2026] else lit ''Generate Resume''),
      loader_shown = loading s,
      toast = (if truthy (error s) then Some (error s) else None)\<rparr>"

subsection \<open>The mounted component and its events\<close>

text \<open>
  The mounted component. \<open>ui\<close> holds the four state cells with every setter call so far
  applied. \<open>rendered\<close> is the state of the last committed render: the document shows
  \<open>render\<close> of it, and the handlers are its closures, so a handler reads \<open>jdUrl\<close>,
  \<open>greyHat\<close> and \<open>loading\<close> from it and not from \<open>ui\<close>. \<open>in_flight\<close> counts
  the runs of \<open>generate\<close> that wait for their \<open>fetch\<close>, and \<open>trace\<close> lists every
  effect performed so far.

  An event is handled to its end (for a click on the button: up to the \<open>await\<close>) before
  the next one. \<open>generate\<close> itself never tests \<open>loading\<close>: the only guard of a click is
  the \<open>disabled\<close> attribute the last committed render gave the button, and a disabled
  button receives no click. React commits a re-render at the end of a change event of a
  controlled input (the text box and the checkbox). What a click on the button and a settled
  request set is committed by a later re-render, the event \<open>Rerender\<close>, which may come at
  any moment or after further events.
\<close>

record component =
  ui :: state
  rendered :: state
  in_flight :: nat
  trace :: "effect list"

definition initial_component :: component where
  "initial_component =
     \<lparr>ui = initial_state, rendered = initial_state, in_flight = 0, trace = []\<rparr>"

datatype event =
    ChangeUrl js_string
  | ToggleGreyHat
  | ClickGenerate
  | Settle browser
  | Rerender

definition perform :: "component \<Rightarrow> effect list \<Rightarrow> component" where
  "perform c es = c\<lparr>ui := apply_effects (ui c) es, trace := trace c @ es\<rparr>"

definition commit :: "component \<Rightarrow> component" where
  "commit c = c\<lparr>rendered := ui c\<rparr>"

fun handle :: "env_value \<Rightarrow> component \<Rightarrow> event \<Rightarrow> component" where
  "handle API_BASE c (ChangeUrl v) = commit (perform c [SetJdUrl v])"
| "handle API_BASE c ToggleGreyHat = commit (perform c [SetGreyHat (\<not> greyHat (rendered c))])"
| "handle API_BASE c ClickGenerate =
     (if button_disabled (render (rendered c)) then c
      else (case generate_sync API_BASE (rendered c) of
              (es, awaiting) \<Rightarrow>
                (perform c es)\<lparr>in_flight := in_flight c + (if awaiting then 1 else 0)\<rparr>))"
| "handle API_BASE c (Settle b) =
     (if in_flight c = 0 then c
      else (perform c (generate_async b))\<lparr>in_flight := in_flight c - 1\<rparr>)"
| "handle API_BASE c Rerender = commit c"

definition run :: "env_value \<Rightarrow> component \<Rightarrow> event list \<Rightarrow> component" where
  "run API_BASE c evs = foldl (handle API_BASE) c evs"

text \<open>
  The closures of the last committed render are in step with the state cells in what
  \<open>generate\<close> sends and what the checkbox negates.
\<close>

definition closure_in_step :: "component \<Rightarrow> bool" where
  "closure_in_step c =
     (jdUrl (rendered c) = jdUrl (ui c) \<and> greyHat (rendered c) = greyHat (ui c))"

text \<open>
  An event list in which a re-render is committed between any two clicks on the button.
  The flag says whether the button was clicked since the last commit.
\<close>

fun rerender_between_clicks :: "bool \<Rightarrow> event list \<Rightarrow> bool" where
  "rerender_between_clicks clicked [] = True"
| "rerender_between_clicks clicked (ClickGenerate # evs) =
     (if clicked then False else rerender_between_clicks True evs)"
| "rerender_between_clicks clicked (Settle b # evs) = rerender_between_clicks clicked evs"
| "rerender_between_clicks clicked (_ # evs) = rerender_between_clicks False evs"

text \<open>
  When a run of \<open>generate\<close> that has issued its request fails: \<open>fetch\<close> rejects, the
  response is not a 2xx one, or reading its body rejects.
\<close>

definition request_failed :: "browser \<Rightarrow> bool" where
  "request_failed b =
     (case fetch_result b of
        FetchRejects err \<Rightarrow> True
      | FetchResolves res \<Rightarrow>
          (if ok res then (case blob_result res of BlobRejects err \<Rightarrow> True | BlobResolves bl \<Rightarrow> False)
           else True))"

text \<open>The number of awaited requests is 1 while \<open>loading\<close> is set and 0 otherwise.\<close>

definition in_flight_matches :: "component \<Rightarrow> bool" where
  "in_flight_matches c = (in_flight c = (if loading (ui c) then 1 else 0))"

text \<open>
  What holds between the events of such a list: the count matches, and unless the button
  was clicked since the last commit, the committed render shows \<open>loading\<close> when it is set.
\<close>

definition click_invariant :: "bool \<Rightarrow> component \<Rightarrow> bool" where
  "click_invariant clicked c =
     (in_flight_matches c \<and> (clicked \<or> \<not> loading (ui c) \<or> loading (rendered c)))"

text \<open>A request whose body is the JSON text of the two fields, with \<open>grey_hat\<close> being \<open>g\<close>.\<close>

definition carries_grey_hat :: "bool \<Rightarrow> request \<Rightarrow> bool" where
  "carries_grey_hat g r =
     (\<exists>u. body r = JSON_stringify [(lit ''jd_url'', JString u), (lit ''grey_hat'', JBool g)])"

section \<open>Example inputs\<close>

definition example_api :: env_value where
  "example_api = Str (lit ''http://localhost:8000'')"

definition example_state :: state where
  "example_state = initial_state\<lparr>jdUrl := lit ''https://example.com/job/123''\<rparr>"

definition pdf_bytes :: blob where
  "pdf_bytes = [0x25, 0x50, 0x44, 0x46]"

definition browser_success :: browser where
  "browser_success =
     \<lparr>fetch_result = FetchResolves \<lparr>status = 200, blob_result = BlobResolves pdf_bytes\<rparr>,
      object_url = lit ''blob:1''\<rparr>"

definition browser_offline :: browser where
  "browser_offline =
     \<lparr>fetch_result = FetchRejects (Error (lit ''Failed to fetch'')), object_url = lit ''blob:1''\<rparr>"

definition browser_body_lost :: browser where
  "browser_body_lost =
     \<lparr>fetch_result =
        FetchResolves \<lparr>status = 200, blob_result = BlobRejects (Error (lit ''network error''))\<rparr>,
      object_url = lit ''blob:1''\<rparr>"

definition browser_bad_gateway :: browser where
  "browser_bad_gateway =
     \<lparr>fetch_result =
        FetchResolves \<lparr>status = 502, blob_result = BlobResolves (map of_char ''FetchError'')\<rparr>,
      object_url = lit ''blob:1''\<rparr>"

definition browser_server_error :: browser where
  "browser_server_error =
     \<lparr>fetch_result =
        FetchResolves \<lparr>status = 500, blob_result = BlobResolves (map of_char ''GenerationError'')\<rparr>,
      object_url = lit ''blob:1''\<rparr>"

definition example_component :: component where
  "example_component =
     \<lparr>ui = example_state, rendered = example_state, in_flight = 0, trace = []\<rparr>"

section \<open>The JSON text of a string\<close>

lemma unat_hex_digit: "n < 16 \<Longrightarrow> unat (hex_digit n) = (if n < 10 then 48 + n else 87 + n)"
  by (simp add: hex_digit_def unat_of_nat)

lemma hex_digit_inj:
  assumes "a < 16" "b < 16" "hex_digit a = hex_digit b"
  shows "a = b"
proof -
  have "unat (hex_digit a) = unat (hex_digit b)"
    using assms(3) by simp
  then show ?thesis
    using assms(1,2) by (simp add: unat_hex_digit split: if_splits)
qed

lemma div_mod_16_eq: "(m::nat) div 16 = n div 16 \<Longrightarrow> m mod 16 = n mod 16 \<Longrightarrow> m = n"
  by (metis div_mult_mod_eq)

lemma unicode_escape_inj:
  assumes "unicode_escape c = unicode_escape d"
  shows "c = d"
proof -
  have "unat c < 65536" "unat d < 65536"
    using unsigned_less [of c, where ?'a = nat] unsigned_less [of d, where ?'a = nat] by simp_all
  then have "unat c div 4096 < 16" "unat d div 4096 < 16"
    by simp_all
  moreover have "hex_digit (unat c div 4096) = hex_digit (unat d div 4096)"
    and "hex_digit (unat c div 256 mod 16) = hex_digit (unat d div 256 mod 16)"
    and "hex_digit (unat c div 16 mod 16) = hex_digit (unat d div 16 mod 16)"
    and "hex_digit (unat c mod 16) = hex_digit (unat d mod 16)"
    using assms by (simp_all add: unicode_escape_def)
  ultimately have d3: "unat c div 4096 = unat d div 4096"
    and d2: "unat c div 256 mod 16 = unat d div 256 mod 16"
    and d1: "unat c div 16 mod 16 = unat d div 16 mod 16"
    and d0: "unat c mod 16 = unat d mod 16"
    by (simp_all add: hex_digit_inj)
  have "unat c div 256 div 16 = unat d div 256 div 16"
    using d3 by (simp add: div_mult2_eq [symmetric])
  then have "unat c div 256 = unat d div 256"
    using d2 by (rule div_mod_16_eq)
  then have "unat c div 16 div 16 = unat d div 16 div 16"
    by (simp add: div_mult2_eq [symmetric])
  then have "unat c div 16 = unat d div 16"
    using d1 by (rule div_mod_16_eq)
  then have "unat c = unat d"
    using d0 by (rule div_mod_16_eq)
  then show ?thesis
    by (simp add: word_unat_eq_iff)
qed

lemma unicode_escape_shape: "\<exists>a b c d. unicode_escape u = [0x5C, 0x75, a, b, c, d]"
  by (simp add: unicode_escape_def)

lemma quote_unit_head:
  "\<exists>x xs. quote_unit c = x # xs \<and> x \<noteq> 0x22 \<and> \<not> is_high_surrogate x"
  unfolding quote_unit_def unicode_escape_def
  by (simp add: is_high_surrogate_def)

lemma quote_unit_inj:
  assumes "quote_unit c @ x = quote_unit d @ y"
  shows "c = d \<and> x = y"
proof -
  obtain a1 a2 a3 a4 where c: "unicode_escape c = [0x5C, 0x75, a1, a2, a3, a4]"
    using unicode_escape_shape by blast
  obtain b1 b2 b3 b4 where d: "unicode_escape d = [0x5C, 0x75, b1, b2, b3, b4]"
    using unicode_escape_shape by blast
  have "unicode_escape c = unicode_escape d \<Longrightarrow> c = d"
    by (rule unicode_escape_inj)
  then show ?thesis
    using assms unfolding quote_unit_def c d
    by (auto split: if_splits)
qed

lemma high_surrogate_not_quote: "is_high_surrogate x \<Longrightarrow> x \<noteq> 0x22"
  by (auto simp: is_high_surrogate_def)

lemma quote_units_head:
  assumes "s \<noteq> []"
  shows "\<exists>x xs. quote_units s = x # xs \<and> x \<noteq> 0x22"
proof (cases s rule: quote_units.cases)
  case 1
  with assms show ?thesis by simp
next
  case (2 c)
  then show ?thesis
    using quote_unit_head [of c] by auto
next
  case (3 c d cs)
  show ?thesis
  proof (cases "is_high_surrogate c \<and> is_low_surrogate d")
    case True
    then show ?thesis
      using 3 high_surrogate_not_quote [of c] by simp
  next
    case False
    then show ?thesis
      using 3 quote_unit_head [of c] by auto
  qed
qed

lemma quote_units_not_quote_first: "quote_units s @ 0x22 # r = 0x22 # r' \<Longrightarrow> s = []"
  using quote_units_head [of s] by (cases "s = []") auto

lemma quote_unit_not_high: "quote_unit c @ x = h # y \<Longrightarrow> \<not> is_high_surrogate h"
  using quote_unit_head [of c] by auto

lemma quote_unit_not_quote: "quote_unit c @ x \<noteq> 0x22 # y"
  using quote_unit_head [of c] by auto

text \<open>The quoted text of a string, up to its closing quote, determines the string.\<close>

lemma quote_units_inj:
  "quote_units s @ 0x22 # r = quote_units t @ 0x22 # r' \<Longrightarrow> s = t \<and> r = r'"
proof (induction s arbitrary: t rule: quote_units.induct)
  case 1
  then have "t = []"
    using quote_units_not_quote_first [of t r' r] by simp
  with 1 show ?case by simp
next
  case (2 c)
  show ?case
  proof (cases t rule: quote_units.cases)
    case 1
    with 2 show ?thesis
      using quote_unit_not_quote [of c "0x22 # r" r'] by simp
  next
    case (2 d)
    with "2.prems" show ?thesis
      using quote_unit_inj [of c "0x22 # r" d "0x22 # r'"] by simp
  next
    case (3 d e us)
    show ?thesis
    proof (cases "is_high_surrogate d \<and> is_low_surrogate e")
      case True
      with 3 "2.prems" show ?thesis
        using quote_unit_not_high [of c "0x22 # r" d] by simp
    next
      case False
      with 3 "2.prems" have "c = d \<and> 0x22 # r = quote_units (e # us) @ 0x22 # r'"
        using quote_unit_inj [of c "0x22 # r" d "quote_units (e # us) @ 0x22 # r'"] by simp
      then show ?thesis
        using quote_units_not_quote_first [of "e # us" r' r] by simp
    qed
  qed
next
  case (3 c d cs)
  show ?case
  proof (cases "is_high_surrogate c \<and> is_low_surrogate d")
    case pair: True
    show ?thesis
    proof (cases t rule: quote_units.cases)
      case 1
      with pair "3.prems" show ?thesis
        using high_surrogate_not_quote [of c] by simp
    next
      case (2 x)
      with pair "3.prems" have "quote_unit x @ 0x22 # r' = c # d # quote_units cs @ 0x22 # r"
        by simp
      with pair show ?thesis
        using quote_unit_not_high by blast
    next
      case t: (3 x y us)
      show ?thesis
      proof (cases "is_high_surrogate x \<and> is_low_surrogate y")
        case True
        with pair t "3.prems" have "c = x" "d = y"
          and "quote_units cs @ 0x22 # r = quote_units us @ 0x22 # r'"
          by simp_all
        then show ?thesis
          using "3.IH"(1) [OF pair, of us] t by simp
      next
        case False
        with pair t "3.prems" have
          "quote_unit x @ quote_units (y # us) @ 0x22 # r' = c # d # quote_units cs @ 0x22 # r"
          by simp
        with pair show ?thesis
          using quote_unit_not_high by blast
      qed
    qed
  next
    case single: False
    then have eq: "quote_unit c @ quote_units (d # cs) @ 0x22 # r = quote_units t @ 0x22 # r'"
      using "3.prems" by auto
    show ?thesis
    proof (cases t rule: quote_units.cases)
      case 1
      with eq show ?thesis
        using quote_unit_not_quote [of c] by simp
    next
      case (2 x)
      with eq have "c = x \<and> quote_units (d # cs) @ 0x22 # r = 0x22 # r'"
        using quote_unit_inj [of c "quote_units (d # cs) @ 0x22 # r" x "0x22 # r'"] by simp
      then show ?thesis
        using quote_units_not_quote_first [of "d # cs" r r'] by simp
    next
      case t: (3 x y us)
      show ?thesis
      proof (cases "is_high_surrogate x \<and> is_low_surrogate y")
        case True
        with t eq show ?thesis
          using quote_unit_not_high [of c "quote_units (d # cs) @ 0x22 # r" x] by simp
      next
        case False
        with t eq have "c = x"
          and "quote_units (d # cs) @ 0x22 # r = quote_units (y # us) @ 0x22 # r'"
          using quote_unit_inj [of c "quote_units (d # cs) @ 0x22 # r" x
              "quote_units (y # us) @ 0x22 # r'"] by simp_all
        then show ?thesis
          using "3.IH"(2) [OF single, of "y # us"] t by simp
      qed
    qed
  qed
qed

lemma QuoteJSONString_inj:
  "QuoteJSONString s @ r = QuoteJSONString t @ r' \<Longrightarrow> s = t \<and> r = r'"
  using quote_units_inj [of s r t r'] by (simp add: QuoteJSONString_def)

text \<open>The body of a request determines both of its fields.\<close>

lemma request_body_inj:
  assumes "JSON_stringify [(lit ''jd_url'', JString u), (lit ''grey_hat'', JBool g)]
         = JSON_stringify [(lit ''jd_url'', JString u'), (lit ''grey_hat'', JBool g')]"
  shows "u = u' \<and> g = g'"
proof -
  from assms have
    "QuoteJSONString u @ lit '','' @ QuoteJSONString (lit ''grey_hat'') @ lit '':''
        @ stringify_value (JBool g) @ lit ''}''
     = QuoteJSONString u' @ lit '','' @ QuoteJSONString (lit ''grey_hat'') @ lit '':''
        @ stringify_value (JBool g') @ lit ''}''"
    by (simp add: JSON_stringify_def)
  then have u: "u = u'"
    and "lit '','' @ QuoteJSONString (lit ''grey_hat'') @ lit '':''
        @ stringify_value (JBool g) @ lit ''}''
     = lit '','' @ QuoteJSONString (lit ''grey_hat'') @ lit '':''
        @ stringify_value (JBool g') @ lit ''}''"
    using QuoteJSONString_inj by blast+
  then have "stringify_value (JBool g) = stringify_value (JBool g')"
    by simp
  then have "g = g'"
    by (cases g; cases g') (simp_all add: lit_def)
  with u show ?thesis by simp
qed

section \<open>Input validation\<close>

lemma set_dropWhile_all: "(\<forall>x\<in>set (dropWhile P xs). P x) \<longleftrightarrow> (\<forall>x\<in>set xs. P x)"
  by (induction xs) auto

lemma trim_eq_Nil_iff: "trim s = [] \<longleftrightarrow> (\<forall>c\<in>set s. is_white_space c)"
proof -
  have "trim s = [] \<longleftrightarrow> (\<forall>c\<in>set (rev (dropWhile is_white_space s)). is_white_space c)"
    by (simp add: trim_def dropWhile_eq_Nil_conv)
  also have "\<dots> \<longleftrightarrow> (\<forall>c\<in>set s. is_white_space c)"
    by (simp add: set_dropWhile_all)
  finally show ?thesis .
qed

lemma generate_invalid:
  "\<not> truthy (trim (jdUrl s)) \<Longrightarrow>
   generate API_BASE b s = [SetError (lit ''Please paste a Job Description URL'')]"
  by (simp add: generate_def generate_sync_def)

lemma generate_valid:
  "truthy (trim (jdUrl s)) \<Longrightarrow>
   generate API_BASE b s =
     [SetLoading True, SetError [], Fetch (generate_request API_BASE s)] @ generate_async b"
  by (simp add: generate_def generate_sync_def)

lemma generate_async_fetch_rejects:
  "fetch_result b = FetchRejects err \<Longrightarrow>
   generate_async b = [SetError (js_or (message err) (lit ''Something went wrong'')), SetLoading False]"
  by (simp add: generate_async_def try_rest_def catch_clause_def finally_clause_def)

lemma generate_async_not_ok:
  "fetch_result b = FetchResolves res \<Longrightarrow> \<not> ok res \<Longrightarrow>
   generate_async b = [SetError (lit ''Failed to generate resume''), SetLoading False]"
  by (simp add: generate_async_def try_rest_def catch_clause_def finally_clause_def js_or_def
      truthy_def lit_def)

lemma generate_async_blob_rejects:
  "fetch_result b = FetchResolves res \<Longrightarrow> ok res \<Longrightarrow> blob_result res = BlobRejects err \<Longrightarrow>
   generate_async b = [SetError (js_or (message err) (lit ''Something went wrong'')), SetLoading False]"
  by (simp add: generate_async_def try_rest_def catch_clause_def finally_clause_def)

lemma generate_async_success:
  "fetch_result b = FetchResolves res \<Longrightarrow> ok res \<Longrightarrow> blob_result res = BlobResolves bl \<Longrightarrow>
   generate_async b =
     [CreateObjectURL bl (object_url b),
      AppendChild \<lparr>href = object_url b, download = lit ''ATS_Resume.pdf''\<rparr>,
      Click \<lparr>href = object_url b, download = lit ''ATS_Resume.pdf''\<rparr>,
      Remove \<lparr>href = object_url b, download = lit ''ATS_Resume.pdf''\<rparr>,
      RevokeObjectURL (object_url b), SetLoading False]"
  by (simp add: generate_async_def try_rest_def finally_clause_def Let_def)

lemma js_or_truthy: "truthy (js_or m (lit ''Something went wrong''))"
  by (simp add: js_or_def truthy_def lit_def)

lemma request_failed_iff_throws: "request_failed b \<longleftrightarrow> snd (try_rest b) \<noteq> None"
  by (simp add: request_failed_def try_rest_def Let_def split: fetch_outcome.splits blob_outcome.splits)

lemma generate_async_failed:
  assumes "request_failed b"
  shows "\<exists>msg. truthy msg \<and> generate_async b = [SetError msg, SetLoading False]"
proof (cases "fetch_result b")
  case (FetchRejects err)
  then show ?thesis
    using js_or_truthy by (auto simp: generate_async_fetch_rejects)
next
  case (FetchResolves res)
  show ?thesis
  proof (cases "ok res")
    case False
    have "truthy (lit ''Failed to generate resume'')"
      by (simp add: truthy_def lit_def)
    then show ?thesis
      using FetchResolves False by (auto simp: generate_async_not_ok)
  next
    case True
    with assms FetchResolves obtain err where "blob_result res = BlobRejects err"
      by (auto simp: request_failed_def split: blob_outcome.splits)
    then show ?thesis
      using FetchResolves True js_or_truthy by (auto simp: generate_async_blob_rejects)
  qed
qed

lemma generate_async_shape:
  "(\<exists>msg. truthy msg \<and> generate_async b = [SetError msg, SetLoading False])
   \<or> (\<exists>bl. generate_async b =
        [CreateObjectURL bl (object_url b),
         AppendChild \<lparr>href = object_url b, download = lit ''ATS_Resume.pdf''\<rparr>,
         Click \<lparr>href = object_url b, download = lit ''ATS_Resume.pdf''\<rparr>,
         Remove \<lparr>href = object_url b, download = lit ''ATS_Resume.pdf''\<rparr>,
         RevokeObjectURL (object_url b), SetLoading False])"
proof (cases "request_failed b")
  case True
  then show ?thesis using generate_async_failed by blast
next
  case False
  then obtain res bl where "fetch_result b = FetchResolves res" "ok res" "blob_result res = BlobResolves bl"
    by (auto simp: request_failed_def split: fetch_outcome.splits blob_outcome.splits if_splits)
  then show ?thesis
    using generate_async_success by blast
qed

lemma generate_async_last: "\<exists>es. generate_async b = es @ [SetLoading False]"
  using generate_async_shape [of b] by auto

lemma apply_effects_append: "apply_effects s (es @ fs) = apply_effects (apply_effects s es) fs"
  by (simp add: apply_effects_def)

lemma apply_effects_simps:
  "apply_effects s [] = s"
  "apply_effects s (e # es) = apply_effects (apply_effect s e) es"
  by (simp_all add: apply_effects_def)

lemma generate_async_state:
  "loading (apply_effects s (generate_async b)) = False"
  "greyHat (apply_effects s (generate_async b)) = greyHat s"
  "jdUrl (apply_effects s (generate_async b)) = jdUrl s"
  using generate_async_shape [of b] by (auto simp: apply_effects_simps)

lemma fetches_append: "fetches (es @ fs) = fetches es @ fetches fs"
  by (induction es rule: fetches.induct) simp_all

lemma fetches_generate_async: "fetches (generate_async b) = []"
  using generate_async_shape [of b] by auto

section \<open>The events of the mounted component\<close>

lemma run_Nil: "run API_BASE c [] = c"
  by (simp add: run_def)

lemma run_snoc: "run API_BASE c (evs @ [ev]) = handle API_BASE (run API_BASE c evs) ev"
  by (simp add: run_def)

lemma run_Cons: "run API_BASE c (ev # evs) = run API_BASE (handle API_BASE c ev) evs"
  by (simp add: run_def)

lemma perform_fields:
  "ui (perform c es) = apply_effects (ui c) es"
  "rendered (perform c es) = rendered c"
  "trace (perform c es) = trace c @ es"
  "in_flight (perform c es) = in_flight c"
  by (simp_all add: perform_def)

lemma commit_fields:
  "ui (commit c) = ui c"
  "rendered (commit c) = ui c"
  "trace (commit c) = trace c"
  "in_flight (commit c) = in_flight c"
  by (simp_all add: commit_def)

lemma button_disabled_render: "button_disabled (render s) = loading s"
  by (simp add: render_def)

text \<open>
  Every event leaves the closures in step: the two change events commit, and neither a
  click on the button nor a settled request sets \<open>jdUrl\<close> or \<open>greyHat\<close>.
\<close>

lemma handle_in_step:
  assumes "closure_in_step c"
  shows "closure_in_step (handle API_BASE c ev)"
proof (cases ev)
  case (ChangeUrl v)
  then show ?thesis
    by (simp add: closure_in_step_def commit_fields)
next
  case ToggleGreyHat
  then show ?thesis
    by (simp add: closure_in_step_def commit_fields)
next
  case ClickGenerate
  with assms show ?thesis
    by (simp add: closure_in_step_def perform_fields apply_effects_simps generate_sync_def)
next
  case (Settle b)
  with assms show ?thesis
    by (simp add: closure_in_step_def perform_fields generate_async_state)
next
  case Rerender
  then show ?thesis
    by (simp add: closure_in_step_def commit_fields)
qed

lemma run_in_step: "closure_in_step c \<Longrightarrow> closure_in_step (run API_BASE c evs)"
  by (induction evs arbitrary: c) (simp_all add: run_Nil run_Cons handle_in_step)

lemma initial_in_step: "closure_in_step initial_component"
  by (simp add: closure_in_step_def initial_component_def)

lemma generate_request_in_step:
  "closure_in_step c \<Longrightarrow> generate_request API_BASE (rendered c) = generate_request API_BASE (ui c)"
  by (simp add: closure_in_step_def generate_request_def request_body_def)

text \<open>Only the checkbox changes \<open>greyHat\<close>.\<close>

lemma greyHat_handle:
  assumes "closure_in_step c"
  shows "greyHat (ui (handle API_BASE c ev))
       = (if ev = ToggleGreyHat then \<not> greyHat (ui c) else greyHat (ui c))"
  using assms
  by (cases ev)
    (simp_all add: closure_in_step_def perform_fields commit_fields apply_effects_simps
      generate_sync_def generate_async_state)

lemma greyHat_run:
  "closure_in_step c \<Longrightarrow>
   greyHat (ui (run API_BASE c evs)) = (greyHat (ui c) = even (count_list evs ToggleGreyHat))"
proof (induction evs arbitrary: c)
  case Nil
  then show ?case by (simp add: run_Nil)
next
  case (Cons ev evs)
  have "closure_in_step (handle API_BASE c ev)"
    using Cons.prems by (rule handle_in_step)
  then have "greyHat (ui (run API_BASE (handle API_BASE c ev) evs))
      = (greyHat (ui (handle API_BASE c ev)) = even (count_list evs ToggleGreyHat))"
    by (rule Cons.IH)
  then show ?case
    using Cons.prems by (auto simp: run_Cons greyHat_handle)
qed

text \<open>A request is issued by a click on a button that the committed render left enabled.\<close>

lemma fetches_handle:
  "fetches (trace (handle API_BASE c ev)) =
     fetches (trace c) @
       (if ev = ClickGenerate \<and> \<not> loading (rendered c) \<and> truthy (trim (jdUrl (rendered c)))
        then [generate_request API_BASE (rendered c)] else [])"
  by (cases ev)
    (simp_all add: perform_fields commit_fields fetches_append generate_sync_def
      fetches_generate_async button_disabled_render)

text \<open>
  With a re-render committed between any two clicks on the button, every event keeps the
  number of awaited requests in step with \<open>loading\<close>.
\<close>

lemma click_invariant_commit:
  assumes "click_invariant clicked c"
  shows "click_invariant False (handle API_BASE c (ChangeUrl v))"
    and "click_invariant False (handle API_BASE c ToggleGreyHat)"
    and "click_invariant False (handle API_BASE c Rerender)"
  using assms
  by (simp_all add: click_invariant_def in_flight_matches_def perform_fields commit_fields
      apply_effects_simps)

lemma click_invariant_settle:
  assumes "click_invariant clicked c"
  shows "click_invariant clicked (handle API_BASE c (Settle b))"
  using assms
  by (simp add: click_invariant_def in_flight_matches_def perform_fields generate_async_state)

lemma click_invariant_click:
  assumes "click_invariant False c"
  shows "click_invariant True (handle API_BASE c ClickGenerate)"
  using assms
  by (auto simp: click_invariant_def in_flight_matches_def perform_fields apply_effects_simps
      button_disabled_render generate_sync_def)

lemma run_click_invariant:
  "click_invariant clicked c \<Longrightarrow> rerender_between_clicks clicked evs \<Longrightarrow>
   in_flight_matches (run API_BASE c evs)"
proof (induction evs arbitrary: c clicked)
  case Nil
  then show ?case by (simp add: run_Nil click_invariant_def)
next
  case (Cons ev evs)
  show ?case
  proof (cases ev)
    case (ChangeUrl v)
    with Cons.prems show ?thesis
      using Cons.IH [of False "handle API_BASE c (ChangeUrl v)"] click_invariant_commit(1)
      by (simp add: run_Cons)
  next
    case ToggleGreyHat
    with Cons.prems show ?thesis
      using Cons.IH [of False "handle API_BASE c ToggleGreyHat"] click_invariant_commit(2)
      by (simp add: run_Cons)
  next
    case ClickGenerate
    with Cons.prems have "\<not> clicked" and "rerender_between_clicks True evs"
      by (simp_all split: if_splits)
    with Cons.prems ClickGenerate show ?thesis
      using Cons.IH [of True "handle API_BASE c ClickGenerate"] click_invariant_click
      by (simp add: run_Cons)
  next
    case (Settle b)
    with Cons.prems show ?thesis
      using Cons.IH [of clicked "handle API_BASE c (Settle b)"] click_invariant_settle
      by (simp add: run_Cons)
  next
    case Rerender
    with Cons.prems show ?thesis
      using Cons.IH [of False "handle API_BASE c Rerender"] click_invariant_commit(3)
      by (simp add: run_Cons)
  qed
qed

lemma initial_click_invariant: "click_invariant False initial_component"
  by (simp add: click_invariant_def in_flight_matches_def initial_component_def
      initial_state_def)

lemma carries_generate_request: "carries_grey_hat (greyHat s) (generate_request API_BASE s)"
  by (auto simp: carries_grey_hat_def generate_request_def request_body_def)

lemma carries_grey_hat_unique:
  assumes "carries_grey_hat g r" and "carries_grey_hat g' r"
  shows "g = g'"
proof -
  obtain u where "body r = JSON_stringify [(lit ''jd_url'', JString u), (lit ''grey_hat'', JBool g)]"
    using assms(1) unfolding carries_grey_hat_def by blast
  moreover obtain u' where
    "body r = JSON_stringify [(lit ''jd_url'', JString u'), (lit ''grey_hat'', JBool g')]"
    using assms(2) unfolding carries_grey_hat_def by blast
  ultimately show ?thesis
    using request_body_inj [of u g u' g'] by simp
qed

lemma carries_generate_request_iff:
  "carries_grey_hat g (generate_request API_BASE s) \<longleftrightarrow> g = greyHat s"
  using carries_generate_request carries_grey_hat_unique by blast

text \<open>Without a click on the checkbox, \<open>greyHat\<close> and the flag of every request stay true.\<close>

lemma untouched_handle:
  assumes "ev \<noteq> ToggleGreyHat" "greyHat (ui c)" "greyHat (rendered c)"
  shows "greyHat (ui (handle API_BASE c ev))" and "greyHat (rendered (handle API_BASE c ev))"
  using assms
  by (cases ev;
      simp add: perform_fields commit_fields apply_effects_simps generate_sync_def
        generate_async_state)+

lemma untouched_run:
  assumes "ToggleGreyHat \<notin> set evs" "greyHat (ui c)" "greyHat (rendered c)"
    "\<forall>r\<in>set (fetches (trace c)). carries_grey_hat True r"
  shows "greyHat (ui (run API_BASE c evs)) \<and> greyHat (rendered (run API_BASE c evs))
       \<and> (\<forall>r\<in>set (fetches (trace (run API_BASE c evs))). carries_grey_hat True r)"
  using assms
proof (induction evs arbitrary: c)
  case Nil
  then show ?case by (simp add: run_Nil)
next
  case (Cons ev evs)
  have ev: "ev \<noteq> ToggleGreyHat"
    using Cons.prems by auto
  have "greyHat (ui (handle API_BASE c ev))" and "greyHat (rendered (handle API_BASE c ev))"
    using ev Cons.prems untouched_handle by blast+
  moreover have "\<forall>r\<in>set (fetches (trace (handle API_BASE c ev))). carries_grey_hat True r"
    using Cons.prems carries_generate_request [of "rendered c" API_BASE]
    by (auto simp: fetches_handle)
  ultimately show ?case
    using Cons.IH [of "handle API_BASE c ev"] Cons.prems by (simp add: run_Cons)
qed

text \<open>
  A click on the enabled button, followed by the settling of its request, performs the
  effects of one run of \<open>generate\<close> from the state of the committed render.
\<close>

lemma click_then_settle:
  assumes "\<not> loading (rendered c)" "in_flight c = 0"
  shows "trace (run API_BASE c [ClickGenerate, Settle b])
       = trace c @ generate API_BASE b (rendered c)"
  using assms
  by (simp add: run_def button_disabled_render generate_def generate_sync_def perform_fields)

section \<open>The example inputs\<close>

lemma example_state_valid: "truthy (trim (jdUrl example_state))"
  by (simp add: example_state_def trim_def truthy_def lit_def is_white_space_def)

lemma example_body_true:
  "JSON_stringify [(lit ''jd_url'', JString (lit ''https://example.com/job/123'')),
                   (lit ''grey_hat'', JBool True)]
   = lit ''{\"jd_url\":\"https://example.com/job/123\",\"grey_hat\":true}''"
  by (simp add: JSON_stringify_def QuoteJSONString_def quote_unit_def is_high_surrogate_def
      is_low_surrogate_def lit_def)

lemma example_body_false:
  "JSON_stringify [(lit ''jd_url'', JString (lit ''https://example.com/job/123'')),
                   (lit ''grey_hat'', JBool False)]
   = lit ''{\"jd_url\":\"https://example.com/job/123\",\"grey_hat\":false}''"
  by (simp add: JSON_stringify_def QuoteJSONString_def quote_unit_def is_high_surrogate_def
      is_low_surrogate_def lit_def)

section \<open>Properties of \<open>generate\<close> and of the component\<close>

text \<open>
  C1: with an empty \<open>jdUrl\<close>, \<open>generate\<close> rejects the request before any network call:
  its only effect is to set the error message, which the toast then shows; no \<open>fetch\<close>
  is issued.
\<close>

theorem generate_empty_url_rejected:
  assumes "jdUrl s = []"
  shows "generate API_BASE b s = [SetError (lit ''Please paste a Job Description URL'')]
       \<and> fetches (generate API_BASE b s) = []
       \<and> apply_effects s (generate API_BASE b s)
           = s\<lparr>error := lit ''Please paste a Job Description URL''\<rparr>
       \<and> toast (render (apply_effects s (generate API_BASE b s)))
           = Some (lit ''Please paste a Job Description URL'')"
proof -
  have "\<not> truthy (trim (jdUrl s))"
    using assms by (simp add: trim_eq_Nil_iff truthy_def)
  then have "generate API_BASE b s = [SetError (lit ''Please paste a Job Description URL'')]"
    by (rule generate_invalid)
  then show ?thesis
    by (simp add: apply_effects_simps render_def truthy_def lit_def)
qed

text \<open>The initial state has an empty \<open>jdUrl\<close>.\<close>

theorem generate_empty_url_rejected_witness:
  "jdUrl initial_state = []
   \<and> generate example_api browser_success initial_state
       = [SetError (lit ''Please paste a Job Description URL'')]
   \<and> fetches (generate example_api browser_success initial_state) = []"
  using generate_empty_url_rejected [of initial_state example_api browser_success]
  by (simp add: initial_state_def)

text \<open>
  C2, amended: for every \<open>jdUrl\<close> that is not empty after trimming, every value of the
  toggle and every answer of the environment, \<open>generate\<close> calls \<open>fetch\<close> exactly once:
  a POST to the path \<open>/generate-resume-from-url\<close> appended to the configured base URL,
  with the one header \<open>Content-Type: application/json\<close> and as body the JSON text of an
  object with exactly the fields \<open>jd_url\<close> (the entered string, untrimmed) and
  \<open>grey_hat\<close> (the toggle).
\<close>

theorem generate_posts_once:
  assumes "truthy (trim (jdUrl s))"
  shows "fetches (generate API_BASE b s) =
           [\<lparr>url = to_string API_BASE @ lit ''/generate-resume-from-url'',
             http_method = POST,
             headers = [(lit ''Content-Type'', lit ''application/json'')],
             body = JSON_stringify
                      [(lit ''jd_url'', JString (jdUrl s)), (lit ''grey_hat'', JBool (greyHat s))]\<rparr>]"
  using assms
  by (simp add: generate_valid fetches_generate_async generate_request_def request_body_def)

text \<open>The request for \<open>https://example.com/job/123\<close> with the toggle off.\<close>

theorem generate_posts_once_witness:
  "truthy (trim (jdUrl (example_state\<lparr>greyHat := False\<rparr>)))
   \<and> fetches (generate example_api browser_offline (example_state\<lparr>greyHat := False\<rparr>)) =
       [\<lparr>url = lit ''http://localhost:8000/generate-resume-from-url'',
         http_method = POST,
         headers = [(lit ''Content-Type'', lit ''application/json'')],
         body = lit ''{\"jd_url\":\"https://example.com/job/123\",\"grey_hat\":false}''\<rparr>]"
proof -
  have valid: "truthy (trim (jdUrl (example_state\<lparr>greyHat := False\<rparr>)))"
    by (simp add: example_state_def trim_def truthy_def lit_def is_white_space_def)
  show ?thesis
    using valid example_body_false generate_posts_once [OF valid, of example_api browser_offline]
    by (simp add: example_state_def example_api_def initial_state_def lit_def)
qed

text \<open>
  C2, as stated for every non-empty \<open>jdUrl\<close>, fails: a \<open>jdUrl\<close> of one space is not
  empty, and \<open>generate\<close> issues no request for it.
\<close>

theorem whitespace_url_posts_nothing:
  "lit '' '' \<noteq> [] \<and> fetches (generate example_api browser_success (initial_state\<lparr>jdUrl := lit '' ''\<rparr>)) = []"
  by (simp add: generate_def generate_sync_def trim_def truthy_def lit_def is_white_space_def)

text \<open>
  C3, amended: for every request whose response is a 2xx one and whose body is read as a
  blob, \<open>generate\<close> triggers exactly one download: one click, on an attached anchor whose
  \<open>href\<close> is the object URL of that blob, saving the bytes of the body under the name
  \<open>ATS_Resume.pdf\<close>; the error message is left empty and no toast is shown.
\<close>

theorem success_downloads_resume:
  assumes "truthy (trim (jdUrl s))"
    and "fetch_result b = FetchResolves res"
    and "ok res"
    and "blob_result res = BlobResolves bl"
  shows "downloads (generate API_BASE b s) = [(lit ''ATS_Resume.pdf'', bl)]
       \<and> clicks (generate API_BASE b s) = [\<lparr>href = object_url b, download = lit ''ATS_Resume.pdf''\<rparr>]
       \<and> error (apply_effects s (generate API_BASE b s)) = []
       \<and> toast (render (apply_effects s (generate API_BASE b s))) = None"
proof -
  have g: "generate API_BASE b s =
      [SetLoading True, SetError [], Fetch (generate_request API_BASE s),
       CreateObjectURL bl (object_url b),
       AppendChild \<lparr>href = object_url b, download = lit ''ATS_Resume.pdf''\<rparr>,
       Click \<lparr>href = object_url b, download = lit ''ATS_Resume.pdf''\<rparr>,
       Remove \<lparr>href = object_url b, download = lit ''ATS_Resume.pdf''\<rparr>,
       RevokeObjectURL (object_url b), SetLoading False]"
    using assms by (simp add: generate_valid generate_async_success)
  have "downloads (generate API_BASE b s) = [(lit ''ATS_Resume.pdf'', bl)]"
    unfolding g by (simp add: downloads_def empty_dom_def)
  moreover have "clicks (generate API_BASE b s)
      = [\<lparr>href = object_url b, download = lit ''ATS_Resume.pdf''\<rparr>]"
    unfolding g by simp
  moreover have e: "error (apply_effects s (generate API_BASE b s)) = []"
    unfolding g by (simp add: apply_effects_simps)
  moreover have "toast (render (apply_effects s (generate API_BASE b s))) = None"
    using e by (simp add: render_def truthy_def)
  ultimately show ?thesis by simp
qed

text \<open>A response with status 200 and a four-byte body.\<close>

theorem success_downloads_resume_witness:
  "truthy (trim (jdUrl example_state))
   \<and> ok \<lparr>status = 200, blob_result = BlobResolves pdf_bytes\<rparr>
   \<and> downloads (generate example_api browser_success example_state)
       = [(lit ''ATS_Resume.pdf'', pdf_bytes)]
   \<and> error (apply_effects example_state (generate example_api browser_success example_state)) = []"
proof -
  have valid: "truthy (trim (jdUrl example_state))"
    by (simp add: example_state_def trim_def truthy_def lit_def is_white_space_def)
  have f: "fetch_result browser_success
      = FetchResolves \<lparr>status = 200, blob_result = BlobResolves pdf_bytes\<rparr>"
    by (simp add: browser_success_def)
  have k: "ok \<lparr>status = 200, blob_result = BlobResolves pdf_bytes\<rparr>"
    by (simp add: ok_def)
  show ?thesis
    using valid k success_downloads_resume [OF valid f k, of pdf_bytes example_api]
    by simp
qed

text \<open>
  C3, as stated for every 2xx response, fails: when the response has status 200 and reading
  its body rejects, the \<open>catch\<close> clause runs; nothing is downloaded and the error message
  is set.
\<close>

theorem lost_body_gives_no_download:
  "ok \<lparr>status = 200, blob_result = BlobRejects (Error (lit ''network error''))\<rparr>
   \<and> fetch_result browser_body_lost
       = FetchResolves \<lparr>status = 200, blob_result = BlobRejects (Error (lit ''network error''))\<rparr>
   \<and> downloads (generate example_api browser_body_lost example_state) = []
   \<and> error (apply_effects example_state (generate example_api browser_body_lost example_state))
       = lit ''network error''
   \<and> lit ''network error'' \<noteq> []"
  by (simp add: generate_def generate_sync_def generate_async_def try_rest_def catch_clause_def
      finally_clause_def js_or_def browser_body_lost_def example_state_def initial_state_def
      ok_def trim_def truthy_def lit_def is_white_space_def downloads_def apply_effects_def)

text \<open>
  C4, amended: for every request whose response is not a 2xx one, whatever the response
  contains, the error message becomes the fixed text \<open>Failed to generate resume\<close> and
  the toast shows it.
\<close>

theorem non_2xx_shows_fixed_message:
  assumes "truthy (trim (jdUrl s))"
    and "fetch_result b = FetchResolves res"
    and "\<not> ok res"
  shows "error (apply_effects s (generate API_BASE b s)) = lit ''Failed to generate resume''
       \<and> toast (render (apply_effects s (generate API_BASE b s)))
           = Some (lit ''Failed to generate resume'')"
proof -
  have e: "error (apply_effects s (generate API_BASE b s)) = lit ''Failed to generate resume''"
    using assms by (simp add: generate_valid generate_async_not_ok apply_effects_simps)
  moreover have "truthy (lit ''Failed to generate resume'')"
    by (simp add: truthy_def lit_def)
  ultimately show ?thesis
    by (simp add: render_def)
qed

text \<open>The 502 response.\<close>

theorem non_2xx_shows_fixed_message_witness:
  "truthy (trim (jdUrl example_state))
   \<and> \<not> ok \<lparr>status = 502, blob_result = BlobResolves (map of_char ''FetchError'')\<rparr>
   \<and> toast (render (apply_effects example_state
        (generate example_api browser_bad_gateway example_state)))
       = Some (lit ''Failed to generate resume'')"
proof -
  have valid: "truthy (trim (jdUrl example_state))"
    by (simp add: example_state_def trim_def truthy_def lit_def is_white_space_def)
  have f: "fetch_result browser_bad_gateway
      = FetchResolves \<lparr>status = 502, blob_result = BlobResolves (map of_char ''FetchError'')\<rparr>"
    by (simp add: browser_bad_gateway_def)
  have k: "\<not> ok \<lparr>status = 502, blob_result = BlobResolves (map of_char ''FetchError'')\<rparr>"
    by (simp add: ok_def)
  show ?thesis
    using valid k non_2xx_shows_fixed_message [OF valid f k, of example_api]
    by simp
qed

text \<open>
  C4, as stated, fails: the toast does not show what the response says. A 502 response
  whose body reads \<open>FetchError\<close> and a 500 response whose body reads
  \<open>GenerationError\<close> both give the toast \<open>Failed to generate resume\<close>.
\<close>

theorem non_2xx_text_not_shown:
  "\<not> ok \<lparr>status = 502, blob_result = BlobResolves (map of_char ''FetchError'')\<rparr>
   \<and> fetch_result browser_bad_gateway
       = FetchResolves \<lparr>status = 502, blob_result = BlobResolves (map of_char ''FetchError'')\<rparr>
   \<and> toast (render (apply_effects example_state
        (generate example_api browser_bad_gateway example_state)))
       = Some (lit ''Failed to generate resume'')
   \<and> lit ''Failed to generate resume'' \<noteq> lit ''FetchError''
   \<and> toast (render (apply_effects example_state
        (generate example_api browser_server_error example_state)))
       = Some (lit ''Failed to generate resume'')
   \<and> lit ''Failed to generate resume'' \<noteq> lit ''GenerationError''"
  by (simp add: generate_def generate_sync_def generate_async_def try_rest_def catch_clause_def
      finally_clause_def js_or_def browser_bad_gateway_def browser_server_error_def
      example_state_def initial_state_def render_def
      ok_def trim_def truthy_def lit_def is_white_space_def apply_effects_def)

text \<open>
  C5: a run that has issued its request and fails (\<open>fetch\<close> rejects, the response is not
  a 2xx one, or reading the body rejects) performs, besides the request, only calls of
  \<open>setLoading\<close> and \<open>setError\<close>: no object URL is created, no anchor is clicked and
  nothing is downloaded. Started from a state in which the button is enabled, it ends in
  the state it started from except for \<open>error\<close>, which holds a non-empty message that the
  toast shows.
\<close>

theorem failure_returns_no_output:
  assumes "truthy (trim (jdUrl s))"
    and "\<not> loading s"
    and "request_failed b"
  shows "\<exists>msg. truthy msg
       \<and> generate API_BASE b s =
           [SetLoading True, SetError [], Fetch (generate_request API_BASE s),
            SetError msg, SetLoading False]
       \<and> downloads (generate API_BASE b s) = []
       \<and> clicks (generate API_BASE b s) = []
       \<and> apply_effects s (generate API_BASE b s) = s\<lparr>error := msg\<rparr>
       \<and> toast (render (apply_effects s (generate API_BASE b s))) = Some msg"
proof -
  from assms(3) obtain msg where msg: "truthy msg"
    and a: "generate_async b = [SetError msg, SetLoading False]"
    using generate_async_failed by blast
  have g: "generate API_BASE b s =
      [SetLoading True, SetError [], Fetch (generate_request API_BASE s),
       SetError msg, SetLoading False]"
    using assms(1) a by (simp add: generate_valid)
  have d: "downloads (generate API_BASE b s) = []"
    unfolding g by (simp add: downloads_def)
  have c: "clicks (generate API_BASE b s) = []"
    unfolding g by simp
  have st: "apply_effects s (generate API_BASE b s) = s\<lparr>error := msg\<rparr>"
    unfolding g using assms(2) by (simp add: apply_effects_simps)
  have "toast (render (apply_effects s (generate API_BASE b s))) = Some msg"
    unfolding st using msg by (simp add: render_def)
  with msg g d c st show ?thesis by blast
qed

text \<open>A run whose \<open>fetch\<close> rejects.\<close>

theorem failure_returns_no_output_witness:
  "truthy (trim (jdUrl example_state)) \<and> \<not> loading example_state
   \<and> request_failed browser_offline
   \<and> (\<exists>msg. truthy msg
        \<and> generate example_api browser_offline example_state =
            [SetLoading True, SetError [], Fetch (generate_request example_api example_state),
             SetError msg, SetLoading False]
        \<and> downloads (generate example_api browser_offline example_state) = []
        \<and> clicks (generate example_api browser_offline example_state) = []
        \<and> apply_effects example_state (generate example_api browser_offline example_state)
            = example_state\<lparr>error := msg\<rparr>
        \<and> toast (render (apply_effects example_state
              (generate example_api browser_offline example_state))) = Some msg)"
proof -
  have l: "\<not> loading example_state"
    by (simp add: example_state_def initial_state_def)
  have f: "request_failed browser_offline"
    by (simp add: request_failed_def browser_offline_def)
  show ?thesis
    using example_state_valid l f
      failure_returns_no_output [OF example_state_valid l f, of example_api]
    by simp
qed

text \<open>
  C7: in every state the component reaches, the closures are in step with the state cells.
  From any such state a click on the checkbox negates \<open>greyHat\<close>; after any sequence of
  events \<open>greyHat\<close> is its starting value negated once for each click on the checkbox;
  and the request that a click on the enabled button issues for a valid \<open>jdUrl\<close> has the
  body whose \<open>grey_hat\<close> field is \<open>greyHat\<close> at that moment, and not its negation.
\<close>

theorem toggle_state_is_sent:
  "closure_in_step (run API_BASE initial_component evs0)
   \<and> (closure_in_step c \<longrightarrow>
        ui (handle API_BASE c ToggleGreyHat) = (ui c)\<lparr>greyHat := \<not> greyHat (ui c)\<rparr>
      \<and> greyHat (ui (run API_BASE c evs)) = (greyHat (ui c) = even (count_list evs ToggleGreyHat))
      \<and> (\<not> loading (rendered c) \<and> truthy (trim (jdUrl (ui c))) \<longrightarrow>
           fetches (trace (handle API_BASE c ClickGenerate))
             = fetches (trace c) @ [generate_request API_BASE (ui c)]
           \<and> body (generate_request API_BASE (ui c))
             = JSON_stringify [(lit ''jd_url'', JString (jdUrl (ui c))),
                               (lit ''grey_hat'', JBool (greyHat (ui c)))]
           \<and> carries_grey_hat (greyHat (ui c)) (generate_request API_BASE (ui c))
           \<and> \<not> carries_grey_hat (\<not> greyHat (ui c)) (generate_request API_BASE (ui c))))"
proof -
  have reach: "closure_in_step (run API_BASE initial_component evs0)"
    by (rule run_in_step [OF initial_in_step])
  have toggle: "ui (handle API_BASE c ToggleGreyHat) = (ui c)\<lparr>greyHat := \<not> greyHat (ui c)\<rparr>"
    if "closure_in_step c"
    using that by (simp add: closure_in_step_def commit_fields perform_fields apply_effects_simps)
  have click: "fetches (trace (handle API_BASE c ClickGenerate))
        = fetches (trace c) @ [generate_request API_BASE (ui c)]"
    if "closure_in_step c" "\<not> loading (rendered c)" "truthy (trim (jdUrl (ui c)))"
  proof -
    have "truthy (trim (jdUrl (rendered c)))"
      using that by (simp add: closure_in_step_def)
    then show ?thesis
      using that fetches_handle [of API_BASE c ClickGenerate]
      by (simp add: generate_request_in_step)
  qed
  have sent: "body (generate_request API_BASE (ui c))
      = JSON_stringify [(lit ''jd_url'', JString (jdUrl (ui c))),
                        (lit ''grey_hat'', JBool (greyHat (ui c)))]"
    by (simp add: generate_request_def request_body_def)
  have "carries_grey_hat (greyHat (ui c)) (generate_request API_BASE (ui c))"
    and "\<not> carries_grey_hat (\<not> greyHat (ui c)) (generate_request API_BASE (ui c))"
    by (simp_all add: carries_generate_request_iff)
  then show ?thesis
    using reach toggle click sent greyHat_run [of c API_BASE evs] by blast
qed

text \<open>Three clicks on the checkbox around a change of the URL, and a click on the button after one.\<close>

theorem toggle_state_is_sent_witness:
  "closure_in_step example_component
   \<and> closure_in_step (run example_api example_component [ToggleGreyHat])
   \<and> \<not> loading (rendered (run example_api example_component [ToggleGreyHat]))
   \<and> truthy (trim (jdUrl (ui (run example_api example_component [ToggleGreyHat]))))
   \<and> greyHat (ui example_component)
   \<and> \<not> greyHat (ui (run example_api example_component [ToggleGreyHat]))
   \<and> greyHat (ui (run example_api example_component
        [ToggleGreyHat, ChangeUrl (lit ''x''), ToggleGreyHat]))
   \<and> fetches (trace (handle example_api (run example_api example_component [ToggleGreyHat])
        ClickGenerate))
       = [generate_request example_api (ui (run example_api example_component [ToggleGreyHat]))]
   \<and> body (generate_request example_api (ui (run example_api example_component [ToggleGreyHat])))
       = lit ''{\"jd_url\":\"https://example.com/job/123\",\"grey_hat\":false}''"
proof -
  have s0: "closure_in_step example_component"
    by (simp add: closure_in_step_def example_component_def)
  have c: "ui (run example_api example_component [ToggleGreyHat]) = example_state\<lparr>greyHat := False\<rparr>"
    and r: "rendered (run example_api example_component [ToggleGreyHat])
      = example_state\<lparr>greyHat := False\<rparr>"
    and t: "trace (run example_api example_component [ToggleGreyHat]) = [SetGreyHat False]"
    by (simp_all add: run_def perform_def commit_def apply_effects_def example_component_def
        example_state_def initial_state_def)
  have s1: "closure_in_step (run example_api example_component [ToggleGreyHat])"
    by (simp add: closure_in_step_def c r)
  have l: "\<not> loading (example_state\<lparr>greyHat := False\<rparr>)"
    by (simp add: example_state_def initial_state_def)
  have v: "truthy (trim (jdUrl (example_state\<lparr>greyHat := False\<rparr>)))"
    using example_state_valid by simp
  have g: "greyHat (ui example_component)"
    by (simp add: example_component_def example_state_def initial_state_def)
  have j: "jdUrl example_state = lit ''https://example.com/job/123''"
    by (simp add: example_state_def)
  show ?thesis
    using s0 s1 l v g
      toggle_state_is_sent [of example_api "[]"
        "run example_api example_component [ToggleGreyHat]"
        "[ToggleGreyHat, ChangeUrl (lit ''x'')]"]
      toggle_state_is_sent [of example_api "[]" example_component
        "[ToggleGreyHat, ChangeUrl (lit ''x''), ToggleGreyHat]"]
    by (simp add: c r t j example_body_false)
qed

text \<open>
  C8, amended: a run of \<open>generate\<close> that passes validation starts with
  \<open>setLoading(true)\<close>, before its only call of \<open>fetch\<close>, and ends with
  \<open>setLoading(false)\<close> whatever the environment answers, so \<open>loading\<close> is set when the
  request is issued and reset after the run. The button is disabled exactly while the
  render shows \<open>loading\<close> set, and a click on it then does nothing. When a re-render is
  committed between any two clicks on the button, at most one request is awaited in every
  state the component reaches, and one is awaited exactly while \<open>loading\<close> is set.
\<close>

theorem loading_brackets_the_request:
  "(truthy (trim (jdUrl s)) \<longrightarrow>
      (\<exists>es. generate API_BASE b s =
               [SetLoading True, SetError [], Fetch (generate_request API_BASE s)] @ es
                 @ [SetLoading False]
           \<and> fetches es = [])
      \<and> loading (apply_effects s [SetLoading True, SetError []])
      \<and> \<not> loading (apply_effects s (generate API_BASE b s)))
   \<and> button_disabled (render s) = loading s
   \<and> (loading (rendered c) \<longrightarrow> handle API_BASE c ClickGenerate = c)
   \<and> (rerender_between_clicks False evs \<longrightarrow>
        in_flight (run API_BASE initial_component evs) \<le> 1
        \<and> (in_flight (run API_BASE initial_component evs) = 1
             \<longleftrightarrow> loading (ui (run API_BASE initial_component evs))))"
proof -
  have run1: "truthy (trim (jdUrl s)) \<longrightarrow>
      (\<exists>es. generate API_BASE b s =
               [SetLoading True, SetError [], Fetch (generate_request API_BASE s)] @ es
                 @ [SetLoading False]
           \<and> fetches es = [])"
  proof
    assume v: "truthy (trim (jdUrl s))"
    obtain es where es: "generate_async b = es @ [SetLoading False]"
      using generate_async_last by blast
    have "fetches es = []"
      using fetches_generate_async [of b] by (simp add: es fetches_append)
    with v es show "\<exists>es. generate API_BASE b s =
               [SetLoading True, SetError [], Fetch (generate_request API_BASE s)] @ es
                 @ [SetLoading False]
           \<and> fetches es = []"
      by (simp add: generate_valid)
  qed
  have run2: "loading (apply_effects s [SetLoading True, SetError []])"
    by (simp add: apply_effects_simps)
  have run3: "truthy (trim (jdUrl s)) \<longrightarrow> \<not> loading (apply_effects s (generate API_BASE b s))"
    by (simp add: generate_valid apply_effects_simps generate_async_state)
  have click: "loading (rendered c) \<longrightarrow> handle API_BASE c ClickGenerate = c"
    by (simp add: button_disabled_render)
  have inv: "in_flight (run API_BASE initial_component evs) \<le> 1
      \<and> (in_flight (run API_BASE initial_component evs) = 1
           \<longleftrightarrow> loading (ui (run API_BASE initial_component evs)))"
    if "rerender_between_clicks False evs"
  proof -
    have "in_flight_matches (run API_BASE initial_component evs)"
      using initial_click_invariant that by (rule run_click_invariant)
    then show ?thesis
      by (simp add: in_flight_matches_def)
  qed
  show ?thesis
    using run1 run2 run3 click inv button_disabled_render [of s] by blast
qed

text \<open>
  A run whose \<open>fetch\<close> rejects, a click on the disabled button, and three clicks with
  a re-render before each.
\<close>

theorem loading_brackets_the_request_witness:
  "truthy (trim (jdUrl example_state))
   \<and> generate example_api browser_offline example_state =
       [SetLoading True, SetError [], Fetch (generate_request example_api example_state),
        SetError (lit ''Failed to fetch''), SetLoading False]
   \<and> \<not> loading (apply_effects example_state (generate example_api browser_offline example_state))
   \<and> loading (rendered (run example_api example_component [ClickGenerate, Rerender]))
   \<and> handle example_api (run example_api example_component [ClickGenerate, Rerender])
         ClickGenerate
       = run example_api example_component [ClickGenerate, Rerender]
   \<and> rerender_between_clicks False
        [ChangeUrl (lit ''https://example.com/job/123''), ClickGenerate, Rerender, ClickGenerate,
         Settle browser_offline, Rerender, ClickGenerate]
   \<and> in_flight (run example_api initial_component
        [ChangeUrl (lit ''https://example.com/job/123''), ClickGenerate, Rerender, ClickGenerate,
         Settle browser_offline, Rerender, ClickGenerate]) = 1
   \<and> length (fetches (trace (run example_api initial_component
        [ChangeUrl (lit ''https://example.com/job/123''), ClickGenerate, Rerender, ClickGenerate,
         Settle browser_offline, Rerender, ClickGenerate]))) = 2"
proof -
  have g: "generate example_api browser_offline example_state =
       [SetLoading True, SetError [], Fetch (generate_request example_api example_state),
        SetError (lit ''Failed to fetch''), SetLoading False]"
    using example_state_valid
    by (simp add: generate_valid generate_async_def try_rest_def catch_clause_def
        finally_clause_def js_or_def browser_offline_def truthy_def lit_def)
  have l: "loading (rendered (run example_api example_component [ClickGenerate, Rerender]))"
    using example_state_valid
    by (simp add: run_def perform_def commit_def apply_effects_def render_def generate_sync_def
        example_component_def example_state_def initial_state_def)
  have r: "rerender_between_clicks False
        [ChangeUrl (lit ''https://example.com/job/123''), ClickGenerate, Rerender, ClickGenerate,
         Settle browser_offline, Rerender, ClickGenerate]"
    by simp
  have a: "generate_async browser_offline = [SetError (lit ''Failed to fetch''), SetLoading False]"
    by (simp add: generate_async_def try_rest_def catch_clause_def finally_clause_def js_or_def
        browser_offline_def truthy_def lit_def)
  have n: "fetches (trace (run example_api initial_component
        [ChangeUrl (lit ''https://example.com/job/123''), ClickGenerate, Rerender, ClickGenerate,
         Settle browser_offline, Rerender, ClickGenerate]))
      = [generate_request example_api example_state, generate_request example_api example_state]"
    using example_state_valid
    by (simp add: run_def perform_def commit_def apply_effects_def render_def generate_sync_def a
        initial_component_def example_state_def initial_state_def generate_request_def
        request_body_def)
  have m: "loading (ui (run example_api initial_component
        [ChangeUrl (lit ''https://example.com/job/123''), ClickGenerate, Rerender, ClickGenerate,
         Settle browser_offline, Rerender, ClickGenerate]))"
    using example_state_valid
    by (simp add: run_def perform_def commit_def apply_effects_def render_def generate_sync_def a
        initial_component_def example_state_def initial_state_def)
  show ?thesis
    using example_state_valid g l r m
      loading_brackets_the_request [of example_state example_api browser_offline
        "run example_api example_component [ClickGenerate, Rerender]"
        "[ChangeUrl (lit ''https://example.com/job/123''), ClickGenerate, Rerender, ClickGenerate,
          Settle browser_offline, Rerender, ClickGenerate]"]
    by (simp add: n)
qed

text \<open>
  C8, as stated for any time, fails: \<open>generate\<close> does not test \<open>loading\<close>, so a second
  click on the button that is handled before the re-render of the first is committed
  finds the button enabled and issues a second request; two requests are then awaited.
\<close>

theorem two_clicks_before_rerender:
  "in_flight (run example_api initial_component
      [ChangeUrl (lit ''https://example.com/job/123''), ClickGenerate, ClickGenerate]) = 2
   \<and> fetches (trace (run example_api initial_component
      [ChangeUrl (lit ''https://example.com/job/123''), ClickGenerate, ClickGenerate]))
     = [generate_request example_api example_state, generate_request example_api example_state]
   \<and> loading (ui (run example_api initial_component
      [ChangeUrl (lit ''https://example.com/job/123''), ClickGenerate]))
   \<and> \<not> button_disabled (render (rendered (run example_api initial_component
      [ChangeUrl (lit ''https://example.com/job/123''), ClickGenerate])))"
  using example_state_valid
  by (simp add: run_def perform_def commit_def apply_effects_def render_def generate_sync_def
      initial_component_def example_state_def initial_state_def generate_request_def
      request_body_def)

text \<open>
  C9: \<open>greyHat\<close> is initially true, and as long as the checkbox is not clicked it stays
  true, in the state cells and in the committed render, and every request the component
  sends carries \<open>grey_hat\<close> true.
\<close>

theorem grey_hat_enabled_by_default:
  "greyHat initial_state
   \<and> (ToggleGreyHat \<notin> set evs \<longrightarrow>
        greyHat (ui (run API_BASE initial_component evs))
        \<and> greyHat (rendered (run API_BASE initial_component evs))
        \<and> (\<forall>r\<in>set (fetches (trace (run API_BASE initial_component evs))).
              carries_grey_hat True r \<and> \<not> carries_grey_hat False r))"
proof -
  have i: "greyHat initial_state"
    by (simp add: initial_state_def)
  then have "greyHat (ui initial_component)" and "greyHat (rendered initial_component)"
    and "\<forall>r\<in>set (fetches (trace initial_component)). carries_grey_hat True r"
    by (simp_all add: initial_component_def)
  then show ?thesis
    using i untouched_run [of evs initial_component API_BASE] carries_grey_hat_unique by blast
qed

text \<open>The user enters a URL and clicks the button.\<close>

theorem grey_hat_enabled_by_default_witness:
  "ToggleGreyHat \<notin> set [ChangeUrl (lit ''https://example.com/job/123''), ClickGenerate]
   \<and> map body (fetches (trace (run example_api initial_component
        [ChangeUrl (lit ''https://example.com/job/123''), ClickGenerate])))
       = [lit ''{\"jd_url\":\"https://example.com/job/123\",\"grey_hat\":true}'']
   \<and> carries_grey_hat True (generate_request example_api example_state)"
proof -
  have t: "ToggleGreyHat \<notin> set [ChangeUrl (lit ''https://example.com/job/123''), ClickGenerate]"
    by simp
  have f: "fetches (trace (run example_api initial_component
        [ChangeUrl (lit ''https://example.com/job/123''), ClickGenerate]))
      = [generate_request example_api example_state]"
    using example_state_valid
    by (simp add: run_def perform_def commit_def apply_effects_def render_def generate_sync_def
        initial_component_def example_state_def initial_state_def generate_request_def
        request_body_def)
  have b: "body (generate_request example_api example_state)
      = lit ''{\"jd_url\":\"https://example.com/job/123\",\"grey_hat\":true}''"
    by (simp add: generate_request_def request_body_def example_state_def initial_state_def
        example_body_true)
  show ?thesis
    using t grey_hat_enabled_by_default
      [of "[ChangeUrl (lit ''https://example.com/job/123''), ClickGenerate]" example_api]
    by (simp add: f b)
qed

text \<open>
  C10: a \<open>jdUrl\<close> made of white space only (the code points \<open>trim\<close> strips) trims to
  the empty string and is rejected as the empty string is: the only effect of \<open>generate\<close>
  is to set the same error message; no \<open>fetch\<close> is issued and \<open>loading\<close> is not touched.
\<close>

theorem whitespace_url_rejected:
  assumes "\<forall>c\<in>set (jdUrl s). is_white_space c"
  shows "trim (jdUrl s) = []
       \<and> generate API_BASE b s = [SetError (lit ''Please paste a Job Description URL'')]
       \<and> generate API_BASE b (s\<lparr>jdUrl := []\<rparr>) = generate API_BASE b s
       \<and> fetches (generate API_BASE b s) = []
       \<and> apply_effects s (generate API_BASE b s)
           = s\<lparr>error := lit ''Please paste a Job Description URL''\<rparr>
       \<and> loading (apply_effects s (generate API_BASE b s)) = loading s"
proof -
  have t: "trim (jdUrl s) = []"
    using assms by (simp add: trim_eq_Nil_iff)
  then have g: "generate API_BASE b s = [SetError (lit ''Please paste a Job Description URL'')]"
    by (simp add: generate_invalid truthy_def)
  have "trim (jdUrl (s\<lparr>jdUrl := []\<rparr>)) = []"
    by (simp add: trim_def)
  then have "generate API_BASE b (s\<lparr>jdUrl := []\<rparr>)
      = [SetError (lit ''Please paste a Job Description URL'')]"
    by (simp add: generate_invalid truthy_def)
  with t g show ?thesis
    by (simp add: apply_effects_simps)
qed

text \<open>A space, a tab, a no-break space, an ideographic space and a line feed.\<close>

theorem whitespace_url_rejected_witness:
  "is_white_space 0x20 \<and> is_white_space 0x09 \<and> is_white_space 0xA0 \<and> is_white_space 0x3000
   \<and> is_white_space 0x0A
   \<and> generate example_api browser_success (initial_state\<lparr>jdUrl := [0x20, 0x09, 0xA0, 0x3000, 0x0A]\<rparr>)
       = [SetError (lit ''Please paste a Job Description URL'')]
   \<and> fetches (generate example_api browser_success
        (initial_state\<lparr>jdUrl := [0x20, 0x09, 0xA0, 0x3000, 0x0A]\<rparr>)) = []"
proof -
  have w: "\<forall>c\<in>set (jdUrl (initial_state\<lparr>jdUrl := [0x20, 0x09, 0xA0, 0x3000, 0x0A]\<rparr>)).
      is_white_space c"
    by (simp add: is_white_space_def)
  show ?thesis
    using w whitespace_url_rejected [OF w, of example_api browser_success]
    by simp
qed

end
